theory Spec2Isabelle
  imports Main "HOL-Library.Word" "HOL-Library.AList"
begin

section \<open>The guest API socket of the daemon\<close>

text \<open>
  The embedding follows \<^verbatim>\<open>src/cmd/incusd/dev_incus.go\<close>. Go values are modelled as
  follows: an \<^verbatim>\<open>error\<close> is the text of its message; a \<^verbatim>\<open>map[string]string\<close> is an
  association list (its order stands for the unspecified iteration order of Go, its keys
  are pairwise distinct in every map Go can build); \<^verbatim>\<open>int32\<close> and \<^verbatim>\<open>uint32\<close> are
  32-bit words; a function that returns \<^verbatim>\<open>(T, error)\<close> returns \<open>error + T\<close>.
\<close>

subsection \<open>Strings and maps\<close>

type_synonym error = string

type_synonym gomap = "(string \<times> string) list"

text \<open>\<^verbatim>\<open>m[k]\<close>: the value stored under \<open>k\<close>, the empty string when the key is absent.\<close>

definition index :: "gomap \<Rightarrow> string \<Rightarrow> string" where
  "index m k = (case map_of m k of None \<Rightarrow> [] | Some v \<Rightarrow> v)"

text \<open>\<^verbatim>\<open>strings.HasPrefix(s, p)\<close>.\<close>

definition HasPrefix :: "string \<Rightarrow> string \<Rightarrow> bool" where
  "HasPrefix s p = (take (length p) s = p)"

text \<open>\<^verbatim>\<open>strings.Contains(s, sub)\<close>.\<close>

fun Contains :: "string \<Rightarrow> string \<Rightarrow> bool" where
  "Contains [] sub = (sub = [])"
| "Contains (c # cs) sub = (HasPrefix (c # cs) sub \<or> Contains cs sub)"

text \<open>\<^verbatim>\<open>strings.Split(s, sep)\<close> for a separator of one byte: \<open>split_at sep cur s\<close> carries
  the field read so far in \<open>cur\<close>.\<close>

fun split_at :: "char \<Rightarrow> string \<Rightarrow> string \<Rightarrow> string list" where
  "split_at sep cur [] = [cur]"
| "split_at sep cur (c # cs) =
     (if c = sep then cur # split_at sep [] cs else split_at sep (cur @ [c]) cs)"

definition Split :: "string \<Rightarrow> char \<Rightarrow> string list" where
  "Split s sep = split_at sep [] s"

text \<open>\<^verbatim>\<open>strings.SplitN(s, sep, 2)\<close> on a string that contains the separator: the text
  before its first occurrence and the text after it.\<close>

definition SplitN2 :: "string \<Rightarrow> char \<Rightarrow> string \<times> string" where
  "SplitN2 s sep = (takeWhile (\<lambda>c. c \<noteq> sep) s, drop 1 (dropWhile (\<lambda>c. c \<noteq> sep) s))"

text \<open>\<^verbatim>\<open>strings.TrimSuffix(s, suffix)\<close>.\<close>

definition TrimSuffix :: "string \<Rightarrow> string \<Rightarrow> string" where
  "TrimSuffix s suffix =
     (if length suffix \<le> length s \<and> drop (length s - length suffix) s = suffix
      then take (length s - length suffix) s else s)"

text \<open>\<^verbatim>\<open>strings.ToLower\<close> on ASCII letters.\<close>

definition lower_char :: "char \<Rightarrow> char" where
  "lower_char c =
     (case map_of (zip ''ABCDEFGHIJKLMNOPQRSTUVWXYZ'' ''abcdefghijklmnopqrstuvwxyz'') c of
        None \<Rightarrow> c | Some l \<Rightarrow> l)"

definition ToLower :: "string \<Rightarrow> string" where
  "ToLower s = map lower_char s"

text \<open>The decimal text of a number, as \<^verbatim>\<open>%d\<close> prints it.\<close>

fun digits :: "nat \<Rightarrow> string" where
  "digits n =
     (if n < 10 then [''0123456789'' ! n] else digits (n div 10) @ [''0123456789'' ! (n mod 10)])"

declare digits.simps [simp del]

definition Sprintf_d :: "int \<Rightarrow> string" where
  "Sprintf_d i = (if i < 0 then CHR ''-'' # digits (nat (- i)) else digits (nat i))"

subsection \<open>Helpers of the repository that are not in the source tree\<close>

text \<open>
  Modelled from the spec: \<^verbatim>\<open>util.IsTrue\<close>, \<^verbatim>\<open>util.IsFalse\<close> and \<^verbatim>\<open>util.IsFalseOrEmpty\<close>
  (package shared/util, not under src/). The spec reads them as "is true", "is false"
  and, for the images toggle, "is not explicitly true" of a boolean configuration value;
  the words accepted for the two truth values are those of the shared boolean
  vocabulary, compared without regard to case.
\<close>

definition IsTrue :: "string \<Rightarrow> bool" where
  "IsTrue v = (ToLower v = ''true'' \<or> ToLower v = ''1'' \<or> ToLower v = ''yes'' \<or> ToLower v = ''on'')"

definition IsFalse :: "string \<Rightarrow> bool" where
  "IsFalse v = (ToLower v = ''false'' \<or> ToLower v = ''0'' \<or> ToLower v = ''no'' \<or> ToLower v = ''off'')"

definition IsFalseOrEmpty :: "string \<Rightarrow> bool" where
  "IsFalseOrEmpty v = (v = [] \<or> IsFalse v)"

subsection \<open>Peer credentials and the connection map\<close>

text \<open>\<^verbatim>\<open>unix.Ucred\<close>: \<^verbatim>\<open>Pid int32\<close>, \<^verbatim>\<open>Uid uint32\<close>, \<^verbatim>\<open>Gid uint32\<close>.\<close>

record Ucred =
  Pid :: "32 word"
  Uid :: "32 word"
  Gid :: "32 word"

text \<open>A connection is known by its pointer, a number here.\<close>

type_synonym conn = nat

text \<open>\<^verbatim>\<open>http.ConnState\<close> is an integer type with five named values; any other value
  reaches the \<^verbatim>\<open>default\<close> branch.\<close>

datatype ConnState =
  StateNew | StateActive | StateIdle | StateHijacked | StateClosed | StateOther int

text \<open>
  \<^verbatim>\<open>ConnPidMapper.ConnStateHandler\<close>. The map \<^verbatim>\<open>m.m\<close> is passed in and returned;
  \<open>GetUcred\<close> is the outcome of \<^verbatim>\<open>linux.GetUcred(unixConn)\<close>, the kernel's answer for
  this connection. Logging is not modelled.
\<close>

fun ConnStateHandler ::
  "(conn \<rightharpoonup> Ucred) \<Rightarrow> (error + Ucred) \<Rightarrow> conn \<Rightarrow> ConnState \<Rightarrow> (conn \<rightharpoonup> Ucred)" where
  "ConnStateHandler m GetUcred unixConn StateNew =
     (case GetUcred of Inl err \<Rightarrow> m | Inr cred \<Rightarrow> m(unixConn \<mapsto> cred))"
| "ConnStateHandler m GetUcred unixConn StateActive = m"
| "ConnStateHandler m GetUcred unixConn StateIdle = m"
| "ConnStateHandler m GetUcred unixConn StateHijacked = m(unixConn := None)"
| "ConnStateHandler m GetUcred unixConn StateClosed = m(unixConn := None)"
| "ConnStateHandler m GetUcred unixConn (StateOther n) = m"

subsection \<open>Instances\<close>

datatype instancetype = Container | VM

text \<open>\<^verbatim>\<open>instancetype.Type.String()\<close> (package instancetype, not under src/): the names
  of the two instance types.\<close>

fun instancetype_String :: "instancetype \<Rightarrow> string" where
  "instancetype_String Container = ''container''"
| "instancetype_String VM = ''virtual-machine''"

text \<open>
  Modelled from the spec: the id-map (package shared/idmap, not under src/), an ordered
  list of ranges (kind, ns base, host base, count). A range of uids sends the
  in-namespace id \<open>x\<close> with \<open>ns_base \<le> x < ns_base + count\<close> to the host id
  \<open>host_base + (x - ns_base)\<close>. \<^verbatim>\<open>ShiftIntoNS(uid, gid)\<close> answers with the first range of
  each kind that covers the id, as the call \<^verbatim>\<open>uid, _ := idmapset.ShiftIntoNS(0, 0)\<close> reads
  it, and with -1 for an id that no range covers.
\<close>

datatype idkind = UidRange | GidRange | BothRange

record IdmapEntry =
  kind :: idkind
  ns_base :: int
  host_base :: int
  count :: int

type_synonym IdmapSet = "IdmapEntry list"

definition shift_into_ns :: "IdmapEntry \<Rightarrow> int \<Rightarrow> int option" where
  "shift_into_ns e x =
     (if x < ns_base e \<or> ns_base e + count e \<le> x then None else Some (x - ns_base e + host_base e))"

fun host_id_of :: "idkind \<Rightarrow> IdmapSet \<Rightarrow> int \<Rightarrow> int option" where
  "host_id_of k [] x = None"
| "host_id_of k (e # es) x =
     (if kind e = k \<or> kind e = BothRange
      then (case shift_into_ns e x of Some h \<Rightarrow> Some h | None \<Rightarrow> host_id_of k es x)
      else host_id_of k es x)"

definition ShiftIntoNS :: "IdmapSet \<Rightarrow> int \<Rightarrow> int \<Rightarrow> int \<times> int" where
  "ShiftIntoNS idmapset uid gid =
     ((case host_id_of UidRange idmapset uid of Some h \<Rightarrow> h | None \<Rightarrow> - 1),
      (case host_id_of GidRange idmapset gid of Some h \<Rightarrow> h | None \<Rightarrow> - 1))"

text \<open>
  Modelled from the spec: the instance handle (\<^verbatim>\<open>instance.Instance\<close>, an interface
  whose implementation is not under src/), which "provides: id, name, project name, type,
  location, running flag, init PID, current id-map, local config map, expanded config
  map, expanded devices map, cloud-init id": one field per method the handlers call.
  \<open>CurrentIdmap\<close> is the outcome of \<^verbatim>\<open>c.CurrentIdmap()\<close>: an error, no id-map
  (\<^verbatim>\<open>nil\<close>), or an id-map. \<open>VolatileSetErr\<close> is the outcome of the database write
  behind \<^verbatim>\<open>c.VolatileSet\<close>. \<open>ExpandedDevices\<close> maps a device name to the device's
  configuration. An accessor returns the map that the handle holds, not a copy.
\<close>

record Instance =
  ID :: int
  Name :: string
  Project :: string
  Type :: instancetype
  Location :: string
  IsRunning :: bool
  InitPID :: int
  CloudInitID :: string
  CurrentIdmap :: "error + IdmapSet option"
  LocalConfig :: gomap
  ExpandedConfig :: gomap
  ExpandedDevices :: "(string \<times> gomap) list"
  VolatileSetErr :: "error option"

text \<open>
  Modelled from the spec: \<^verbatim>\<open>c.VolatileSet(changes)\<close>, the mutator of the instance handle
  that "sets the local config flag". It stores every changed key in the local
  configuration unless the write fails, in which case the handle is as before.
\<close>

definition VolatileSet :: "Instance \<Rightarrow> gomap \<Rightarrow> error + Instance" where
  "VolatileSet c changes =
     (case VolatileSetErr c of
        Some err \<Rightarrow> Inl err
      | None \<Rightarrow> Inr (c\<lparr>LocalConfig := fold (\<lambda>(k, v) m. AList.update k v m) changes (LocalConfig c)\<rparr>))"

subsection \<open>Status codes\<close>

text \<open>
  Modelled from the spec: \<^verbatim>\<open>api.StatusCode\<close> and \<^verbatim>\<open>api.StatusCodeFromString\<close> (package
  shared/api, not under src/). The handler tells \<^verbatim>\<open>api.Started\<close> and \<^verbatim>\<open>api.Ready\<close> from
  every other code; the names are "Started" and "Ready", "matched case-insensitively via
  the shared status vocabulary". \<open>OtherStatus\<close> stands for every other code of that
  vocabulary and for the code of an unknown name; the handler never prints it.
\<close>

datatype StatusCode = Started | Ready | OtherStatus

fun StatusCode_String :: "StatusCode \<Rightarrow> string" where
  "StatusCode_String Started = ''Started''"
| "StatusCode_String Ready = ''Ready''"
| "StatusCode_String OtherStatus = ''''"

definition StatusCodeFromString :: "string \<Rightarrow> StatusCode" where
  "StatusCodeFromString status =
     (if ToLower status = ''started'' then Started
      else if ToLower status = ''ready'' then Ready
      else OtherStatus)"

text \<open>\<^verbatim>\<open>strconv.FormatBool\<close>.\<close>

definition FormatBool :: "bool \<Rightarrow> string" where
  "FormatBool b = (if b then ''true'' else ''false'')"

subsection \<open>Requests, responses and the daemon\<close>

text \<open>\<^verbatim>\<open>apiGuest.DevIncusPut\<close> and \<^verbatim>\<open>apiGuest.DevIncusGet\<close>.\<close>

record DevIncusPut =
  State :: string

record DevIncusGet = DevIncusPut +
  APIVersion :: string
  Location_of :: string
  InstanceType :: string

text \<open>
  What a handler reads of \<^verbatim>\<open>*http.Request\<close> and \<^verbatim>\<open>http.ResponseWriter\<close>: the method, the
  path variables of the router (\<^verbatim>\<open>mux.Vars(r)\<close>, still escaped), the outcome of decoding
  the body as JSON into a \<^verbatim>\<open>DevIncusPut\<close>, the form values, the headers, the remote
  address, and the outcomes of the transport operations of the events endpoint
  (websocket upgrade, the \<^verbatim>\<open>http.Hijacker\<close> assertion, the hijack, the stream
  connection, the registration of the listener).
\<close>

record Request =
  Method :: string
  Vars :: gomap
  Body :: "error + DevIncusPut"
  Form :: gomap
  Header :: gomap
  RemoteAddr :: string
  UpgradeErr :: "error option"
  IsHijacker :: bool
  HijackErr :: "error option"
  StreamErr :: "error option"
  AddListenerErr :: "error option"

text \<open>\<^verbatim>\<open>api.StatusErrorf(code, format, args...)\<close>, its format kept apart from its arguments.\<close>

datatype StatusError = StatusErrorf nat string "string list"

text \<open>The payload a handler hands to \<^verbatim>\<open>response.DevIncusResponse\<close>.\<close>

datatype content =
  StringList "string list"
  | Str string
  | Get DevIncusGet
  | Devices "(string \<times> gomap) list"

text \<open>\<^verbatim>\<open>response.DevIncusResponse(code, content, contentType, isVM)\<close> and
  \<^verbatim>\<open>response.DevIncusErrorResponse(err, isVM)\<close>.\<close>

datatype response =
  DevIncusResponse nat content string bool
  | DevIncusErrorResponse StatusError bool

fun status_code :: "response \<Rightarrow> nat" where
  "status_code (DevIncusResponse code c t vm) = code"
| "status_code (DevIncusErrorResponse (StatusErrorf code f args) vm) = code"

text \<open>A lifecycle event on the outer bus: the project it is sent to, its action and the
  name of the instance it is about.\<close>

record Lifecycle =
  EventProject :: string
  Action :: string
  Source :: string

text \<open>A listener of the guest event bus: the instance id, the transport (the content
  type of the response that started it) and the event types it subscribed to.\<close>

record Listener =
  ListenerInstance :: int
  Transport :: string
  Types :: "string list"

text \<open>
  The daemon and what it reaches: the clustering flag, \<^verbatim>\<open>os.Hostname()\<close>, the files and
  symbolic links of the process file system by path (\<^verbatim>\<open>os.ReadFile\<close>, \<^verbatim>\<open>os.Readlink\<close>),
  the instance lookup service (\<^verbatim>\<open>instance.LoadByProjectAndName\<close>,
  \<^verbatim>\<open>instance.LoadNodeAll\<close>), the rendering of the outer image export for a request
  (\<^verbatim>\<open>imageExport(d, r).Render(w)\<close>), the map of the peer-credential tracker, the lifecycle
  events sent so far (\<^verbatim>\<open>s.Events\<close>) and the listeners registered so far
  (\<^verbatim>\<open>s.DevIncusEvents\<close>). The first six are inputs: their code is outside this file.
\<close>

record Daemon =
  serverClustered :: bool
  Hostname :: "error + string"
  ReadFile :: "string \<Rightarrow> error + string"
  Readlink :: "string \<Rightarrow> error + string"
  LoadByProjectAndName :: "string \<Rightarrow> string \<Rightarrow> error + Instance"
  LoadNodeAll :: "instancetype \<Rightarrow> error + Instance list"
  imageExport :: "Request \<Rightarrow> error option"
  pidMapper :: "conn \<rightharpoonup> Ucred"
  Events :: "Lifecycle list"
  DevIncusEvents :: "Listener list"

text \<open>\<^verbatim>\<open>s.Events.SendLifecycle(projectName, lifecycle.InstanceReady.Event(c, nil))\<close>.\<close>

definition SendLifecycle :: "Daemon \<Rightarrow> string \<Rightarrow> Lifecycle \<Rightarrow> Daemon" where
  "SendLifecycle d projectName ev = d\<lparr>Events := Events d @ [ev\<lparr>EventProject := projectName\<rparr>]\<rparr>"

definition InstanceReady_Event :: "Instance \<Rightarrow> Lifecycle" where
  "InstanceReady_Event c = \<lparr>EventProject = Project c, Action = ''instance-ready'', Source = Name c\<rparr>"

text \<open>\<^verbatim>\<open>version.APIVersion\<close> (package internal/version, not under src/): the version
  whose root the index lists.\<close>

definition version_APIVersion :: string where
  "version_APIVersion = ''1.0''"

text \<open>A handler \<^verbatim>\<open>f(d, c, w, r)\<close> returns its response, the instance handle after the call
  and the daemon after the call.\<close>

type_synonym handler = "Daemon \<Rightarrow> Instance \<Rightarrow> Request \<Rightarrow> response \<times> Instance \<times> Daemon"

text \<open>The two error responses that most handlers build: 403 "not authorized" and 500
  "internal server error", with the flag \<^verbatim>\<open>c.Type() == instancetype.VM\<close>.\<close>

definition not_authorized :: "Instance \<Rightarrow> response" where
  "not_authorized c = DevIncusErrorResponse (StatusErrorf 403 ''not authorized'' []) (Type c = VM)"

definition internal_server_error :: "Instance \<Rightarrow> response" where
  "internal_server_error c =
     DevIncusErrorResponse (StatusErrorf 500 ''internal server error'' []) (Type c = VM)"

subsection \<open>The handlers\<close>

text \<open>
  \<^verbatim>\<open>url.PathUnescape\<close>: every \<^verbatim>\<open>%\<close> must be followed by two hexadecimal digits and the
  three bytes become the byte they name; any other byte stands for itself. A \<^verbatim>\<open>%\<close>
  without two hexadecimal digits is an error.
\<close>

definition ishex :: "char \<Rightarrow> bool" where
  "ishex c = (c \<in> set ''0123456789abcdefABCDEF'')"

definition unhex :: "char \<Rightarrow> nat" where
  "unhex c =
     (case map_of (zip ''0123456789abcdefABCDEF''
                       [0, 1, 2, 3, 4, 5, 6, 7, 8, 9, 10, 11, 12, 13, 14, 15, 10, 11, 12, 13, 14, 15]) c of
        None \<Rightarrow> 0 | Some n \<Rightarrow> n)"

fun PathUnescape :: "string \<Rightarrow> error + string" where
  "PathUnescape [] = Inr []"
| "PathUnescape (c # cs) =
     (if c = CHR ''%'' then
        (case cs of
           a # b # rest \<Rightarrow>
             if ishex a \<and> ishex b then
               (case PathUnescape rest of
                  Inl err \<Rightarrow> Inl err
                | Inr s \<Rightarrow> Inr (char_of (16 * unhex a + unhex b) # s))
             else Inl ''invalid URL escape''
         | _ \<Rightarrow> Inl ''invalid URL escape'')
      else (case PathUnescape cs of Inl err \<Rightarrow> Inl err | Inr s \<Rightarrow> Inr (c # s)))"

text \<open>The handler of \<^verbatim>\<open>"/"\<close>, the first entry of \<^verbatim>\<open>handlers\<close>.\<close>

definition devIncusRoot :: handler where
  "devIncusRoot d c r = (DevIncusResponse 200 (StringList [''/1.0'']) ''json'' (Type c = VM), c, d)"

text \<open>\<^verbatim>\<open>devIncusConfigGet\<close>: the loop over the expanded configuration appends one path per
  key with an exposed prefix.\<close>

definition devIncusConfigGet :: handler where
  "devIncusConfigGet d c r =
     (if IsFalse (index (ExpandedConfig c) ''security.guestapi'') then (not_authorized c, c, d)
      else
        let filtered =
              map (\<lambda>(k, v). ''/1.0/config/'' @ k)
                (filter (\<lambda>(k, v). HasPrefix k ''user.'' \<or> HasPrefix k ''cloud-init.'')
                   (ExpandedConfig c))
        in (DevIncusResponse 200 (StringList filtered) ''json'' (Type c = VM), c, d))"

text \<open>\<^verbatim>\<open>devIncusConfigKeyGet\<close>.\<close>

definition devIncusConfigKeyGet :: handler where
  "devIncusConfigKeyGet d c r =
     (if IsFalse (index (ExpandedConfig c) ''security.guestapi'') then (not_authorized c, c, d)
      else
        case PathUnescape (index (Vars r) ''key'') of
          Inl err \<Rightarrow>
            (DevIncusErrorResponse (StatusErrorf 400 ''bad request'' []) (Type c = VM), c, d)
        | Inr key \<Rightarrow>
            if \<not> HasPrefix key ''user.'' \<and> \<not> HasPrefix key ''cloud-init.''
            then (not_authorized c, c, d)
            else
              (case map_of (ExpandedConfig c) key of
                 None \<Rightarrow>
                   (DevIncusErrorResponse (StatusErrorf 404 ''not found'' []) (Type c = VM), c, d)
               | Some v \<Rightarrow> (DevIncusResponse 200 (Str v) ''raw'' (Type c = VM), c, d)))"

text \<open>\<^verbatim>\<open>devIncusImageExport\<close>: the outer handler sees the request with its remote address
  rewritten.\<close>

definition devIncusImageExport :: handler where
  "devIncusImageExport d c r =
     (if IsFalse (index (ExpandedConfig c) ''security.guestapi'') then (not_authorized c, c, d)
      else if IsFalseOrEmpty (index (ExpandedConfig c) ''security.guestapi.images'')
      then (not_authorized c, c, d)
      else
        case imageExport d (r\<lparr>RemoteAddr := ''@dev_incus''\<rparr>) of
          Some err \<Rightarrow> (internal_server_error c, c, d)
        | None \<Rightarrow> (DevIncusResponse 200 (Str '''') ''raw'' (Type c = VM), c, d))"

text \<open>\<^verbatim>\<open>devIncusMetadataGet\<close>.\<close>

definition devIncusMetadataGet :: handler where
  "devIncusMetadataGet d inst r =
     (if IsFalse (index (ExpandedConfig inst) ''security.guestapi'')
      then (not_authorized inst, inst, d)
      else
        let v = index (ExpandedConfig inst) ''user.meta-data''
        in (DevIncusResponse 200
              (Str (''#cloud-config'' @ [CHR 0x0A] @ ''instance-id: '' @ CloudInitID inst @ [CHR 0x0A]
                    @ ''local-hostname: '' @ Name inst @ [CHR 0x0A] @ v))
              ''raw'' (Type inst = VM), inst, d))"

text \<open>
  \<^verbatim>\<open>devIncusEventsGet\<close>, up to the return of \<^verbatim>\<open>listener.Wait\<close>: the listener is registered
  with the types of the request (\<^verbatim>\<open>config,device\<close> by default) and the response is the
  one of the transport that was chosen.
\<close>

definition AddListener :: "Daemon \<Rightarrow> Request \<Rightarrow> Instance \<Rightarrow> string \<Rightarrow> string \<Rightarrow> error + Daemon" where
  "AddListener d r c transport typeStr =
     (case AddListenerErr r of
        Some err \<Rightarrow> Inl err
      | None \<Rightarrow>
          Inr (d\<lparr>DevIncusEvents := DevIncusEvents d @
                 [\<lparr>ListenerInstance = ID c, Transport = transport, Types = Split typeStr CHR '',''\<rparr>]\<rparr>))"

definition devIncusEventsGet :: handler where
  "devIncusEventsGet d c r =
     (if IsFalse (index (ExpandedConfig c) ''security.guestapi'') then (not_authorized c, c, d)
      else
        let typeStr = (if index (Form r) ''type'' = '''' then ''config,device'' else index (Form r) ''type'')
        in
          if index (Header r) ''Upgrade'' = ''websocket'' then
            (case UpgradeErr r of
               Some err \<Rightarrow> (internal_server_error c, c, d)
             | None \<Rightarrow>
                 (case AddListener d r c ''websocket'' typeStr of
                    Inl err \<Rightarrow> (internal_server_error c, c, d)
                  | Inr d' \<Rightarrow>
                      (DevIncusResponse 200 (Str ''websocket'') ''websocket'' (Type c = VM), c, d')))
          else if \<not> IsHijacker r then (internal_server_error c, c, d)
          else
            (case HijackErr r of
               Some err \<Rightarrow> (internal_server_error c, c, d)
             | None \<Rightarrow>
                 (case StreamErr r of
                    Some err \<Rightarrow> (internal_server_error c, c, d)
                  | None \<Rightarrow>
                      (case AddListener d r c ''raw'' typeStr of
                         Inl err \<Rightarrow> (internal_server_error c, c, d)
                       | Inr d' \<Rightarrow>
                           (DevIncusResponse 200 (Str '''') ''raw'' (Type c = VM), c, d')))))"

text \<open>\<^verbatim>\<open>devIncusAPIHandler\<close>: GET reads the state, PATCH sets it, any other method is
  refused.\<close>

definition devIncusAPIHandler :: handler where
  "devIncusAPIHandler d c r =
     (if Method r = ''GET'' then
        (case (if serverClustered d then Inr (Location c) else Hostname d) of
           Inl err \<Rightarrow> (internal_server_error c, c, d)
         | Inr location \<Rightarrow>
             let state = (if IsTrue (index (LocalConfig c) ''volatile.last_state.ready'')
                          then Ready else Started)
             in (DevIncusResponse 200
                   (Get \<lparr>State = StatusCode_String state, APIVersion = version_APIVersion,
                         Location_of = location, InstanceType = instancetype_String (Type c)\<rparr>)
                   ''json'' (Type c = VM), c, d))
      else if Method r = ''PATCH'' then
        (if IsFalse (index (ExpandedConfig c) ''security.guestapi'') then (not_authorized c, c, d)
         else
           case Body r of
             Inl err \<Rightarrow> (DevIncusErrorResponse (StatusErrorf 400 ''%s'' [err]) (Type c = VM), c, d)
           | Inr req \<Rightarrow>
               let state = StatusCodeFromString (State req) in
               if state \<noteq> Started \<and> state \<noteq> Ready
               then (DevIncusErrorResponse (StatusErrorf 400 ''Invalid state %q'' [State req])
                       (Type c = VM), c, d)
               else
                 (case VolatileSet c [(''volatile.last_state.ready'', FormatBool (state = Ready))] of
                    Inl err \<Rightarrow>
                      (DevIncusErrorResponse (StatusErrorf 500 ''%s'' [err]) (Type c = VM), c, d)
                  | Inr c' \<Rightarrow>
                      (DevIncusResponse 200 (Str '''') ''raw'' (Type c' = VM), c',
                       if state = Ready then SendLifecycle d (Project c') (InstanceReady_Event c')
                       else d)))
      else
        (DevIncusErrorResponse (StatusErrorf 405 ''method %q not allowed'' [Method r]) (Type c = VM),
         c, d))"

text \<open>
  \<^verbatim>\<open>devIncusDevicesGet\<close>. \<^verbatim>\<open>c.ExpandedDevices()\<close> hands out the map the instance handle
  holds, so the assignment \<^verbatim>\<open>devices[devName]["hwaddr"] = ...\<close> of the loop writes into
  the handle, and the second call \<^verbatim>\<open>c.ExpandedDevices()\<close> of the \<^verbatim>\<open>return\<close> reads what
  the loop wrote. \<open>fill_hwaddr\<close> is the body of the loop for one device.
\<close>

definition fill_hwaddr :: "gomap \<Rightarrow> string \<times> gomap \<Rightarrow> string \<times> gomap" where
  "fill_hwaddr localConfig dev =
     (case dev of (devName, devConfig) \<Rightarrow>
        if index devConfig ''type'' = ''nic'' \<and> index devConfig ''hwaddr'' = ''''
           \<and> index localConfig (''volatile.'' @ devName @ ''.hwaddr'') \<noteq> ''''
        then (devName,
              AList.update ''hwaddr'' (index localConfig (''volatile.'' @ devName @ ''.hwaddr'')) devConfig)
        else (devName, devConfig))"

definition devIncusDevicesGet :: handler where
  "devIncusDevicesGet d c r =
     (if IsFalse (index (ExpandedConfig c) ''security.guestapi'') then (not_authorized c, c, d)
      else
        let localConfig = LocalConfig c;
            devices = ExpandedDevices c;
            c' = c\<lparr>ExpandedDevices := map (fill_hwaddr localConfig) devices\<rparr>
        in (DevIncusResponse 200 (Devices (ExpandedDevices c')) ''json'' (Type c' = VM), c', d))"

text \<open>The table \<^verbatim>\<open>handlers\<close>: the path pattern of each handler, in the order of the
  source.\<close>

definition handlers :: "(string \<times> handler) list" where
  "handlers =
     [(''/'', devIncusRoot),
      (''/1.0'', devIncusAPIHandler),
      (''/1.0/config'', devIncusConfigGet),
      (''/1.0/config/{key}'', devIncusConfigKeyGet),
      (''/1.0/meta-data'', devIncusMetadataGet),
      (''/1.0/events'', devIncusEventsGet),
      (''/1.0/images/{fingerprint}/export'', devIncusImageExport),
      (''/1.0/devices'', devIncusDevicesGet)]"

subsection \<open>The container resolver\<close>

definition errPIDNotInContainer :: error where
  "errPIDNotInContainer = ''pid not in container?''"

definition isspace :: "char \<Rightarrow> bool" where
  "isspace c = (c \<in> set [CHR 0x09, CHR 0x0A, CHR 0x0C, CHR 0x0D, CHR '' ''])"

definition isdigit :: "char \<Rightarrow> bool" where
  "isdigit c = (c \<in> set ''0123456789'')"

text \<open>
  \<^verbatim>\<open>re.FindStringSubmatch(line)\<close> for the expression \<^verbatim>\<open>^PPid:\s+([0-9]+)$\<close>: the digits
  of the line when the whole line is \<^verbatim>\<open>PPid:\<close>, then at least one white-space byte, then
  at least one digit; \<open>None\<close> when the line does not match. (A digit is no white
  space, so the white space of a matching line is all of it that follows the colon.)
\<close>

definition FindPPid :: "string \<Rightarrow> string option" where
  "FindPPid line =
     (if HasPrefix line ''PPid:'' then
        let rest = drop 5 line; ws = takeWhile isspace rest; ds = dropWhile isspace rest
        in if ws \<noteq> [] \<and> ds \<noteq> [] \<and> list_all isdigit ds then Some ds else None
      else None)"

text \<open>\<^verbatim>\<open>strconv.Atoi\<close> on a 64-bit platform: an optional sign, then digits; a value
  outside the range of \<^verbatim>\<open>int\<close> is an error.\<close>

definition decimal :: "string \<Rightarrow> nat" where
  "decimal ds = foldl (\<lambda>n c. 10 * n + unhex c) 0 ds"

definition Atoi :: "string \<Rightarrow> error + int" where
  "Atoi s =
     (let neg = HasPrefix s ''-'';
          ds = (if HasPrefix s ''-'' then drop 1 s else if HasPrefix s ''+'' then drop 1 s else s)
      in if ds = [] then Inl ''invalid syntax''
         else if list_all isdigit ds then
           (if neg then
              (if 2 ^ 63 < int (decimal ds) then Inl ''value out of range'' else Inr (- int (decimal ds)))
            else
              (if 2 ^ 63 - 1 < int (decimal ds) then Inl ''value out of range'' else Inr (int (decimal ds))))
         else Inl ''invalid syntax'')"

text \<open>The conversion \<^verbatim>\<open>int32(result)\<close> keeps the low 32 bits.\<close>

definition int32 :: "int \<Rightarrow> 32 word" where
  "int32 x = word_of_int x"

text \<open>The paths of the process file system the resolver reads.\<close>

definition proc_path :: "int \<Rightarrow> string \<Rightarrow> string" where
  "proc_path pid name = ''/proc/'' @ Sprintf_d pid @ ''/'' @ name"

text \<open>
  The inner loop over the lines of the status file: the first line that matches sets
  \<open>pid\<close> to its number (or returns the error of \<^verbatim>\<open>Atoi\<close>) and ends the loop; when no
  line matches, \<open>pid\<close> is what it was.
\<close>

fun scan_lines :: "string list \<Rightarrow> 32 word \<Rightarrow> error + 32 word" where
  "scan_lines [] pid = Inr pid"
| "scan_lines (line # lines) pid =
     (case FindPPid line of
        None \<Rightarrow> scan_lines lines pid
      | Some m1 \<Rightarrow> (case Atoi m1 of Inl err \<Rightarrow> Inl err | Inr result \<Rightarrow> Inr (int32 result)))"

text \<open>The branch of the walk that has found a monitor process: the instance named by
  the last argument of its command line.\<close>

definition monitor_instance :: "Daemon \<Rightarrow> string \<Rightarrow> error + Instance" where
  "monitor_instance s cmdline =
     (let parts = Split cmdline CHR '' '';
          name = TrimSuffix (last parts) [CHR 0x00];
          projectName = (if Contains name ''_'' then fst (SplitN2 name CHR ''_'') else ''default'');
          name' = (if Contains name ''_'' then snd (SplitN2 name CHR ''_'') else name)
      in case LoadByProjectAndName s projectName name' of
           Inl err \<Rightarrow> Inl err
         | Inr inst \<Rightarrow>
             if Type inst \<noteq> Container then Inl ''Instance is not container type'' else Inr inst)"

text \<open>One iteration of \<^verbatim>\<open>for pid > 1\<close>: it returns from the function, or it goes on
  with the next value of \<open>pid\<close>.\<close>

datatype iteration = Return "error + Instance" | Climb "32 word"

definition walk_iteration :: "Daemon \<Rightarrow> 32 word \<Rightarrow> iteration" where
  "walk_iteration s pid =
     (case ReadFile s (proc_path (sint pid) ''cmdline'') of
        Inl err \<Rightarrow> Return (Inl err)
      | Inr cmdline \<Rightarrow>
          (case ReadFile s (proc_path (sint pid) ''status'') of
             Inl err \<Rightarrow> Return (Inl err)
           | Inr status \<Rightarrow>
               if HasPrefix cmdline ''[lxc monitor]''
                  \<and> Contains status (''NSpid:'' @ [CHR 0x09] @ Sprintf_d (sint pid) @ [CHR 0x0A])
               then Return (monitor_instance s cmdline)
               else
                 (case scan_lines (Split status (CHR 0x0A)) pid of
                    Inl err \<Rightarrow> Return (Inl err)
                  | Inr pid' \<Rightarrow> Climb pid')))"

text \<open>
  The loop \<^verbatim>\<open>for pid > 1\<close>, which need not end: \<open>ancestry_walk n s pid\<close> runs at most
  \<open>n\<close> iterations. \<open>None\<close>: the loop is still running after \<open>n\<close> iterations;
  \<open>Some (Returned r)\<close>: an iteration returned \<open>r\<close> from the function;
  \<open>Some Exited\<close>: the loop ended with \<open>pid \<le> 1\<close>.
\<close>

datatype walk = Returned "error + Instance" | Exited

fun ancestry_walk :: "nat \<Rightarrow> Daemon \<Rightarrow> 32 word \<Rightarrow> walk option" where
  "ancestry_walk 0 s pid = (if 1 <s pid then None else Some Exited)"
| "ancestry_walk (Suc n) s pid =
     (if 1 <s pid then
        (case walk_iteration s pid of
           Return r \<Rightarrow> Some (Returned r)
         | Climb pid' \<Rightarrow> ancestry_walk n s pid')
      else Some Exited)"

text \<open>The second strategy: the first running container whose init process is in the
  pid namespace of the caller.\<close>

fun scan_instances :: "Daemon \<Rightarrow> string \<Rightarrow> Instance list \<Rightarrow> error + Instance" where
  "scan_instances s origPidNs [] = Inl errPIDNotInContainer"
| "scan_instances s origPidNs (inst # instances) =
     (if Type inst \<noteq> Container then scan_instances s origPidNs instances
      else if \<not> IsRunning inst then scan_instances s origPidNs instances
      else
        (case Readlink s (proc_path (InitPID inst) ''ns/pid'') of
           Inl err \<Rightarrow> Inl err
         | Inr pidNs \<Rightarrow>
             if origPidNs = pidNs then Inr inst else scan_instances s origPidNs instances))"

definition namespace_fallback :: "Daemon \<Rightarrow> 32 word \<Rightarrow> error + Instance" where
  "namespace_fallback s origpid =
     (case Readlink s (proc_path (sint origpid) ''ns/pid'') of
        Inl err \<Rightarrow> Inl err
      | Inr origPidNs \<Rightarrow>
          (case LoadNodeAll s Container of
             Inl err \<Rightarrow> Inl err
           | Inr instances \<Rightarrow> scan_instances s origPidNs instances))"

text \<open>\<^verbatim>\<open>findContainerForPid\<close>, with the bound on the iterations of its first loop.\<close>

definition findContainerForPid :: "nat \<Rightarrow> Daemon \<Rightarrow> 32 word \<Rightarrow> (error + Instance) option" where
  "findContainerForPid n s pid =
     (case ancestry_walk n s pid of
        None \<Rightarrow> None
      | Some (Returned r) \<Rightarrow> Some r
      | Some Exited \<Rightarrow> Some (namespace_fallback s pid))"

subsection \<open>The handler prologue\<close>

text \<open>What \<^verbatim>\<open>hoistReq\<close> writes: \<^verbatim>\<open>http.Error(w, message, code)\<close>, or the rendered response
  of the handler.\<close>

datatype reply = http_Error string nat | Render response

text \<open>The local variable \<^verbatim>\<open>rootUID\<close> after the access-control block.\<close>

definition rootUID :: "Instance \<Rightarrow> 32 word" where
  "rootUID c =
     (case CurrentIdmap c of
        Inl err \<Rightarrow> 0
      | Inr None \<Rightarrow> 0
      | Inr (Some idmapset) \<Rightarrow> word_of_int (fst (ShiftIntoNS idmapset 0 0)))"

text \<open>
  \<^verbatim>\<open>hoistReq(f, d)\<close> on the request \<open>r\<close> of the connection \<open>conn\<close>. It returns what was
  written, the instance handle after the request (when one was resolved) and the daemon
  after the request; \<open>None\<close> when the resolver is still running after \<open>n\<close>
  iterations.
\<close>

definition hoistReq ::
  "handler \<Rightarrow> nat \<Rightarrow> Daemon \<Rightarrow> conn \<Rightarrow> Request \<Rightarrow> (reply \<times> Instance option \<times> Daemon) option" where
  "hoistReq f n d conn r =
     (case pidMapper d conn of
        None \<Rightarrow> Some (http_Error errPIDNotInContainer 500, None, d)
      | Some cred \<Rightarrow>
          (case findContainerForPid n d (Pid cred) of
             None \<Rightarrow> None
           | Some (Inl err) \<Rightarrow> Some (http_Error err 500, None, d)
           | Some (Inr c) \<Rightarrow>
               if rootUID c \<noteq> Uid cred
               then Some (http_Error ''Access denied for non-root user'' 401, Some c, d)
               else (case f d c r of (resp, c', d') \<Rightarrow> Some (Render resp, Some c', d'))))"

text \<open>\<^verbatim>\<open>devIncusAPI(d, hoistReq)\<close>: every handler of the table is registered under its
  path, wrapped in the prologue.\<close>

definition devIncusAPI ::
  "nat \<Rightarrow> Daemon \<Rightarrow>
   (string \<times> (conn \<Rightarrow> Request \<Rightarrow> (reply \<times> Instance option \<times> Daemon) option)) list" where
  "devIncusAPI n d = map (\<lambda>(path, f). (path, hoistReq f n d)) handlers"

subsection \<open>Concrete inputs\<close>

text \<open>
  A container \<open>web\<close> of the default project whose id-map sends the in-namespace
  root to the host uid 1000000; a process file system in which the process 5000 is a child
  of the monitor 4242 of that container, the process 6000 was started by
  \<^verbatim>\<open>exec\<close> (its parent is the process 1, its pid namespace is the one of the init
  process 4300 of the container); and two connections, of the host uids 1000000 and
  1001000.
\<close>

definition example_instance :: Instance where
  "example_instance =
     \<lparr>ID = 7, Name = ''web'', Project = ''default'', Type = Container, Location = ''node1'',
      IsRunning = True, InitPID = 4300, CloudInitID = ''i-42'',
      CurrentIdmap = Inr (Some [\<lparr>kind = BothRange, ns_base = 0, host_base = 1000000, count = 65536\<rparr>]),
      LocalConfig = [(''volatile.eth0.hwaddr'', ''00:16:3e:aa:bb:cc'')],
      ExpandedConfig = [(''user.hello'', ''world''), (''security.nesting'', ''true''),
                        (''cloud-init.user-data'', ''x''), (''user.meta-data'', ''foo: bar'')],
      ExpandedDevices = [(''eth0'', [(''type'', ''nic''), (''network'', ''incusbr0'')]),
                         (''root'', [(''type'', ''disk''), (''path'', ''/'')])],
      VolatileSetErr = None\<rparr>"

definition example_files :: "string \<Rightarrow> error + string" where
  "example_files path =
     (if path = ''/proc/5000/cmdline'' then Inr (''/bin/sh'' @ [CHR 0x00])
      else if path = ''/proc/5000/status'' then
        Inr (''Name:'' @ [CHR 0x09] @ ''sh'' @ [CHR 0x0A] @ ''PPid:'' @ [CHR 0x09] @ ''4242'' @ [CHR 0x0A]
             @ ''NSpid:'' @ [CHR 0x09] @ ''5000'' @ [CHR 0x09] @ ''12'' @ [CHR 0x0A])
      else if path = ''/proc/4242/cmdline'' then
        Inr (''[lxc monitor] /var/lib/incus/containers web'' @ [CHR 0x00])
      else if path = ''/proc/4242/status'' then
        Inr (''Name:'' @ [CHR 0x09] @ ''incusd'' @ [CHR 0x0A] @ ''PPid:'' @ [CHR 0x09] @ ''1'' @ [CHR 0x0A]
             @ ''NSpid:'' @ [CHR 0x09] @ ''4242'' @ [CHR 0x0A])
      else if path = ''/proc/6000/cmdline'' then Inr (''bash'' @ [CHR 0x00])
      else if path = ''/proc/6000/status'' then
        Inr (''Name:'' @ [CHR 0x09] @ ''bash'' @ [CHR 0x0A] @ ''PPid:'' @ [CHR 0x09] @ ''1'' @ [CHR 0x0A]
             @ ''NSpid:'' @ [CHR 0x09] @ ''6000'' @ [CHR 0x09] @ ''40'' @ [CHR 0x0A])
      else Inl ''no such file or directory'')"

definition example_links :: "string \<Rightarrow> error + string" where
  "example_links path =
     (if path = ''/proc/6000/ns/pid'' then Inr ''pid:[4026532501]''
      else if path = ''/proc/4300/ns/pid'' then Inr ''pid:[4026532501]''
      else Inl ''no such file or directory'')"

definition example_daemon :: Daemon where
  "example_daemon =
     \<lparr>serverClustered = False, Hostname = Inr ''host1'',
      ReadFile = example_files,
      Readlink = example_links,
      LoadByProjectAndName =
        (\<lambda>p n. if p = ''default'' \<and> n = ''web'' then Inr example_instance else Inl ''Instance not found''),
      LoadNodeAll = (\<lambda>t. Inr [example_instance]),
      imageExport = (\<lambda>r. None),
      pidMapper = [0 \<mapsto> \<lparr>Pid = 5000, Uid = 1000000, Gid = 1000000\<rparr>,
                   1 \<mapsto> \<lparr>Pid = 5000, Uid = 1001000, Gid = 1001000\<rparr>],
      Events = [], DevIncusEvents = []\<rparr>"


text \<open>The same container with its running flag off, and a daemon whose lookup service
  answers with it.\<close>

definition stopped_instance :: Instance where
  "stopped_instance = example_instance\<lparr>IsRunning := False\<rparr>"

definition stale_daemon :: Daemon where
  "stale_daemon = example_daemon\<lparr>LoadByProjectAndName := (\<lambda>p n. Inr stopped_instance)\<rparr>"

text \<open>A GET whose path variable \<^verbatim>\<open>key\<close> is the escaped form of \<^verbatim>\<open>user.hello\<close>, and a
  PATCH whose body decodes to the state "Ready".\<close>

definition example_request :: Request where
  "example_request =
     \<lparr>Method = ''GET'', Vars = [(''key'', ''user%2Ehello'')], Body = Inl ''EOF'', Form = [], Header = [],
      RemoteAddr = ''@'', UpgradeErr = None, IsHijacker = True, HijackErr = None, StreamErr = None,
      AddListenerErr = None\<rparr>"

definition patch_ready :: Request where
  "patch_ready = example_request\<lparr>Method := ''PATCH'', Body := Inr \<lparr>State = ''Ready''\<rparr>\<rparr>"

text \<open>The lifecycle event that a PATCH to the state "Ready" sends for the container.\<close>

definition ready_event :: Lifecycle where
  "ready_event = \<lparr>EventProject = ''default'', Action = ''instance-ready'', Source = ''web''\<rparr>"

text \<open>The container with the guest API switched off.\<close>

definition disabled_instance :: Instance where
  "disabled_instance =
     example_instance\<lparr>ExpandedConfig := [(''security.guestapi'', ''false''), (''user.hello'', ''world'')]\<rparr>"

text \<open>The container when the lookup of its id-map fails, and a daemon that resolves the
  process 5000 to it, with one connection of the host uid 0 and one of the host uid
  1000000.\<close>

definition idmap_error_instance :: Instance where
  "idmap_error_instance = example_instance\<lparr>CurrentIdmap := Inl ''invalid idmap''\<rparr>"

definition idmap_error_daemon :: Daemon where
  "idmap_error_daemon =
     example_daemon
       \<lparr>LoadByProjectAndName := (\<lambda>p n. Inr idmap_error_instance),
        pidMapper := [0 \<mapsto> \<lparr>Pid = 5000, Uid = 0, Gid = 0\<rparr>,
                      1 \<mapsto> \<lparr>Pid = 5000, Uid = 1000000, Gid = 1000000\<rparr>]\<rparr>"

section \<open>Theorems\<close>

subsection \<open>Evaluation of the string helpers on concrete inputs\<close>

lemma HasPrefix_Nil: "HasPrefix s [] = True"
  by (simp add: HasPrefix_def)

lemma HasPrefix_Nil_Cons: "HasPrefix [] (p # ps) = False"
  by (simp add: HasPrefix_def)

lemma HasPrefix_Cons: "HasPrefix (c # cs) (p # ps) = (c = p \<and> HasPrefix cs ps)"
  by (auto simp add: HasPrefix_def)

lemmas string_eval =
  index_def HasPrefix_Nil HasPrefix_Nil_Cons HasPrefix_Cons Split_def SplitN2_def TrimSuffix_def
  ToLower_def lower_char_def digits.simps Sprintf_d_def proc_path_def isspace_def isdigit_def
  FindPPid_def decimal_def unhex_def Atoi_def int32_def IsTrue_def IsFalse_def IsFalseOrEmpty_def

lemmas resolver_eval =
  findContainerForPid_def walk_iteration_def monitor_instance_def namespace_fallback_def
  word_sless_alt

lemmas example_eval =
  example_daemon_def example_files_def example_links_def example_instance_def example_request_def

lemma example_resolved:
  "findContainerForPid (Suc (Suc 0)) example_daemon 5000 = Some (Inr example_instance)"
  by (simp add: string_eval resolver_eval example_eval)

lemma example_fallback:
  "findContainerForPid (Suc (Suc 0)) example_daemon 6000 = Some (Inr example_instance)
   \<and> ancestry_walk (Suc (Suc 0)) example_daemon 6000 = Some Exited"
  by (simp add: string_eval resolver_eval example_eval)

lemma idmap_error_resolved:
  "findContainerForPid (Suc (Suc 0)) idmap_error_daemon 5000 = Some (Inr idmap_error_instance)"
  by (simp add: string_eval resolver_eval example_eval idmap_error_daemon_def
      idmap_error_instance_def)

subsection \<open>The peer-credential tracker\<close>

text \<open>
  C2. The connection-state callback of the peer-credential tracker: after a transition
  to hijacked or closed the map has no entry for the connection (and every other entry
  is as before); a transition to new stores the credentials when the kernel call
  succeeded and leaves the map as it was when the call failed; transitions to active and
  idle leave the map unchanged.
\<close>

theorem ConnStateHandler_invariant:
  "ConnStateHandler m g c StateHijacked c = None
   \<and> ConnStateHandler m g c StateClosed c = None
   \<and> ConnStateHandler m g c StateHijacked = m(c := None)
   \<and> ConnStateHandler m g c StateClosed = m(c := None)
   \<and> ConnStateHandler m (Inr cred) c StateNew = m(c \<mapsto> cred)
   \<and> ConnStateHandler m (Inl err) c StateNew = m
   \<and> ConnStateHandler m g c StateActive = m
   \<and> ConnStateHandler m g c StateIdle = m"
  by simp

subsection \<open>The authorisation gate\<close>

text \<open>
  C1. Once the connection has credentials and the resolver has returned the container
  \<open>c\<close>, the prologue answers 401 "Access denied for non-root user" exactly when the
  peer uid differs from the host uid of the in-namespace root: host uid 0 when the
  container has no id-map, the host uid \<open>h\<close> that the id-map gives the in-namespace
  uid 0 otherwise (\<open>h\<close> a 32-bit uid). The rejection leaves the instance handle and
  the daemon as they were; a request that is not rejected gets the response of its
  handler.
\<close>

theorem hoistReq_access_control:
  assumes "pidMapper d conn = Some cred"
      and "findContainerForPid n d (Pid cred) = Some (Inr c)"
  shows "(CurrentIdmap c = Inr None \<longrightarrow>
            (hoistReq f n d conn r = Some (http_Error ''Access denied for non-root user'' 401, Some c, d)
               \<longleftrightarrow> Uid cred \<noteq> 0))
       \<and> (\<forall>idmapset h. CurrentIdmap c = Inr (Some idmapset) \<and> host_id_of UidRange idmapset 0 = Some h
              \<and> 0 \<le> h \<and> h < 2 ^ 32 \<longrightarrow>
            (hoistReq f n d conn r = Some (http_Error ''Access denied for non-root user'' 401, Some c, d)
               \<longleftrightarrow> uint (Uid cred) \<noteq> h))
       \<and> (hoistReq f n d conn r = Some (http_Error ''Access denied for non-root user'' 401, Some c, d)
          \<or> hoistReq f n d conn r =
              Some (Render (fst (f d c r)), Some (fst (snd (f d c r))), snd (snd (f d c r))))"
proof -
  have a: "hoistReq f n d conn r =
      (if rootUID c \<noteq> Uid cred
       then Some (http_Error ''Access denied for non-root user'' 401, Some c, d)
       else Some (Render (fst (f d c r)), Some (fst (snd (f d c r))), snd (snd (f d c r))))"
    using assms by (simp add: hoistReq_def split: prod.split)
  have b: "CurrentIdmap c = Inr None \<longrightarrow> rootUID c = 0"
    by (simp add: rootUID_def)
  have c: "\<forall>idmapset h. CurrentIdmap c = Inr (Some idmapset) \<and> host_id_of UidRange idmapset 0 = Some h
              \<and> 0 \<le> h \<and> h < 2 ^ 32 \<longrightarrow> (rootUID c \<noteq> Uid cred \<longleftrightarrow> uint (Uid cred) \<noteq> h)"
  proof (intro allI impI)
    fix idmapset h
    assume h: "CurrentIdmap c = Inr (Some idmapset) \<and> host_id_of UidRange idmapset 0 = Some h
              \<and> 0 \<le> h \<and> h < 2 ^ 32"
    then have "uint (rootUID c) = h"
      by (simp add: rootUID_def ShiftIntoNS_def uint_word_of_int)
    then show "rootUID c \<noteq> Uid cred \<longleftrightarrow> uint (Uid cred) \<noteq> h"
      by (auto simp add: word_uint_eq_iff)
  qed
  have d: "Some (http_Error ''Access denied for non-root user'' 401, Some c, d)
      \<noteq> Some (Render (fst (f d c r)), Some (fst (snd (f d c r))), snd (snd (f d c r)))"
    by simp
  show ?thesis
  proof (cases "rootUID c \<noteq> Uid cred")
    case True
    with a have "hoistReq f n d conn r = Some (http_Error ''Access denied for non-root user'' 401, Some c, d)"
      by simp
    with True b c show ?thesis by auto
  next
    case False
    with a have e: "hoistReq f n d conn r =
        Some (Render (fst (f d c r)), Some (fst (snd (f d c r))), snd (snd (f d c r)))"
      by simp
    with d have "hoistReq f n d conn r \<noteq> Some (http_Error ''Access denied for non-root user'' 401, Some c, d)"
      by simp
    with False e b c show ?thesis by auto
  qed
qed

theorem hoistReq_access_control_witness:
  "pidMapper example_daemon 0 = Some \<lparr>Pid = 5000, Uid = 1000000, Gid = 1000000\<rparr>
   \<and> pidMapper example_daemon 1 = Some \<lparr>Pid = 5000, Uid = 1001000, Gid = 1001000\<rparr>
   \<and> findContainerForPid (Suc (Suc 0)) example_daemon 5000 = Some (Inr example_instance)
   \<and> CurrentIdmap example_instance =
       Inr (Some [\<lparr>kind = BothRange, ns_base = 0, host_base = 1000000, count = 65536\<rparr>])
   \<and> host_id_of UidRange [\<lparr>kind = BothRange, ns_base = 0, host_base = 1000000, count = 65536\<rparr>] 0
       = Some 1000000
   \<and> hoistReq devIncusRoot (Suc (Suc 0)) example_daemon 0 example_request =
       Some (Render (DevIncusResponse 200 (StringList [''/1.0'']) ''json'' False),
             Some example_instance, example_daemon)
   \<and> hoistReq devIncusRoot (Suc (Suc 0)) example_daemon 1 example_request =
       Some (http_Error ''Access denied for non-root user'' 401, Some example_instance, example_daemon)"
proof -
  let ?root = "\<lparr>Pid = 5000, Uid = 1000000, Gid = 1000000\<rparr> :: Ucred"
  let ?user = "\<lparr>Pid = 5000, Uid = 1001000, Gid = 1001000\<rparr> :: Ucred"
  let ?idmap = "[\<lparr>kind = BothRange, ns_base = 0, host_base = 1000000, count = 65536\<rparr>]"
  have pm0: "pidMapper example_daemon 0 = Some ?root"
    by (simp add: example_daemon_def)
  have pm1: "pidMapper example_daemon 1 = Some ?user"
    by (simp add: example_daemon_def)
  have res0: "findContainerForPid (Suc (Suc 0)) example_daemon (Pid ?root) = Some (Inr example_instance)"
    using example_resolved by simp
  have res1: "findContainerForPid (Suc (Suc 0)) example_daemon (Pid ?user) = Some (Inr example_instance)"
    using example_resolved by simp
  have im: "CurrentIdmap example_instance = Inr (Some ?idmap)"
    by (simp add: example_instance_def)
  have h: "host_id_of UidRange ?idmap 0 = Some 1000000"
    by (simp add: shift_into_ns_def)
  have ty: "Type example_instance = Container"
    by (simp add: example_instance_def)
  note t0 = hoistReq_access_control [OF pm0 res0, of devIncusRoot example_request]
  note t1 = hoistReq_access_control [OF pm1 res1, of devIncusRoot example_request]
  from t0 im h have "hoistReq devIncusRoot (Suc (Suc 0)) example_daemon 0 example_request =
          Some (http_Error ''Access denied for non-root user'' 401, Some example_instance, example_daemon)
        \<longleftrightarrow> uint (Uid ?root) \<noteq> 1000000"
    by simp
  then have "hoistReq devIncusRoot (Suc (Suc 0)) example_daemon 0 example_request \<noteq>
          Some (http_Error ''Access denied for non-root user'' 401, Some example_instance, example_daemon)"
    by simp
  with t0 ty have a0: "hoistReq devIncusRoot (Suc (Suc 0)) example_daemon 0 example_request =
       Some (Render (DevIncusResponse 200 (StringList [''/1.0'']) ''json'' False),
             Some example_instance, example_daemon)"
    by (simp add: devIncusRoot_def)
  from t1 im h have "hoistReq devIncusRoot (Suc (Suc 0)) example_daemon 1 example_request =
          Some (http_Error ''Access denied for non-root user'' 401, Some example_instance, example_daemon)
        \<longleftrightarrow> uint (Uid ?user) \<noteq> 1000000"
    by simp
  then have a1: "hoistReq devIncusRoot (Suc (Suc 0)) example_daemon 1 example_request =
          Some (http_Error ''Access denied for non-root user'' 401, Some example_instance, example_daemon)"
    by simp
  from pm0 pm1 example_resolved im h a0 a1 show ?thesis by simp
qed

text \<open>
  C10. When the id-map lookup of the resolved container fails, the prologue does not
  answer with an internal error: \<open>rootUID\<close> stays 0, so the request reaches its handler
  when the peer uid is 0 and is answered 401 otherwise.
\<close>

theorem hoistReq_idmap_error:
  assumes "pidMapper d conn = Some cred"
      and "findContainerForPid n d (Pid cred) = Some (Inr c)"
      and "CurrentIdmap c = Inl err"
  shows "(Uid cred = 0 \<longrightarrow>
            hoistReq f n d conn r =
              Some (Render (fst (f d c r)), Some (fst (snd (f d c r))), snd (snd (f d c r))))
       \<and> (Uid cred \<noteq> 0 \<longrightarrow>
            hoistReq f n d conn r = Some (http_Error ''Access denied for non-root user'' 401, Some c, d))"
  using assms by (auto simp add: hoistReq_def rootUID_def split: prod.split)

theorem hoistReq_idmap_error_witness:
  "pidMapper idmap_error_daemon 0 = Some \<lparr>Pid = 5000, Uid = 0, Gid = 0\<rparr>
   \<and> pidMapper idmap_error_daemon 1 = Some \<lparr>Pid = 5000, Uid = 1000000, Gid = 1000000\<rparr>
   \<and> findContainerForPid (Suc (Suc 0)) idmap_error_daemon 5000 = Some (Inr idmap_error_instance)
   \<and> CurrentIdmap idmap_error_instance = Inl ''invalid idmap''
   \<and> hoistReq devIncusRoot (Suc (Suc 0)) idmap_error_daemon 0 example_request =
       Some (Render (DevIncusResponse 200 (StringList [''/1.0'']) ''json'' False),
             Some idmap_error_instance, idmap_error_daemon)
   \<and> hoistReq devIncusRoot (Suc (Suc 0)) idmap_error_daemon 1 example_request =
       Some (http_Error ''Access denied for non-root user'' 401, Some idmap_error_instance,
             idmap_error_daemon)"
proof -
  let ?root = "\<lparr>Pid = 5000, Uid = 0, Gid = 0\<rparr> :: Ucred"
  let ?user = "\<lparr>Pid = 5000, Uid = 1000000, Gid = 1000000\<rparr> :: Ucred"
  have pm0: "pidMapper idmap_error_daemon 0 = Some ?root"
    by (simp add: idmap_error_daemon_def)
  have pm1: "pidMapper idmap_error_daemon 1 = Some ?user"
    by (simp add: idmap_error_daemon_def)
  have res0: "findContainerForPid (Suc (Suc 0)) idmap_error_daemon (Pid ?root) = Some (Inr idmap_error_instance)"
    using idmap_error_resolved by simp
  have res1: "findContainerForPid (Suc (Suc 0)) idmap_error_daemon (Pid ?user) = Some (Inr idmap_error_instance)"
    using idmap_error_resolved by simp
  have err: "CurrentIdmap idmap_error_instance = Inl ''invalid idmap''"
    by (simp add: idmap_error_instance_def)
  have ty: "Type idmap_error_instance = Container"
    by (simp add: idmap_error_instance_def example_instance_def)
  have a0: "hoistReq devIncusRoot (Suc (Suc 0)) idmap_error_daemon 0 example_request =
       Some (Render (DevIncusResponse 200 (StringList [''/1.0'']) ''json'' False),
             Some idmap_error_instance, idmap_error_daemon)"
    using hoistReq_idmap_error [OF pm0 res0 err, of devIncusRoot example_request] ty
    by (simp add: devIncusRoot_def)
  have a1: "hoistReq devIncusRoot (Suc (Suc 0)) idmap_error_daemon 1 example_request =
       Some (http_Error ''Access denied for non-root user'' 401, Some idmap_error_instance,
             idmap_error_daemon)"
    using hoistReq_idmap_error [OF pm1 res1 err, of devIncusRoot example_request]
    by simp
  from pm0 pm1 idmap_error_resolved err a0 a1 show ?thesis by simp
qed

subsection \<open>The container resolver\<close>

lemma scan_instances_running:
  "scan_instances s ns instances = Inr inst \<Longrightarrow> Type inst = Container \<and> IsRunning inst"
  by (induction instances) (auto split: if_splits sum.splits)

lemma namespace_fallback_running:
  "namespace_fallback s pid = Inr inst \<Longrightarrow> Type inst = Container \<and> IsRunning inst"
  by (auto simp add: namespace_fallback_def split: sum.splits dest: scan_instances_running)

lemma monitor_instance_container:
  "monitor_instance s cmdline = Inr inst \<Longrightarrow> Type inst = Container"
  by (auto simp add: monitor_instance_def Let_def split: sum.splits if_splits)

lemma walk_iteration_container:
  "walk_iteration s pid = Return (Inr inst) \<Longrightarrow> Type inst = Container"
  by (auto simp add: walk_iteration_def split: sum.splits if_splits dest: monitor_instance_container)

lemma ancestry_walk_container:
  "ancestry_walk n s pid = Some (Returned (Inr inst)) \<Longrightarrow> Type inst = Container"
proof (induction n arbitrary: pid)
  case 0
  then show ?case by (simp split: if_splits)
next
  case (Suc n)
  then show ?case
    by (auto split: if_splits iteration.splits dest: walk_iteration_container)
qed

text \<open>The bound only cuts the loop short: once the walk has ended within \<open>n\<close>
  iterations, a larger bound gives the same result.\<close>

lemma ancestry_walk_mono:
  "ancestry_walk n s pid = Some w \<Longrightarrow> ancestry_walk (n + k) s pid = Some w"
proof (induction n arbitrary: pid)
  case 0
  then show ?case by (cases k) (simp_all split: if_splits)
next
  case (Suc n)
  then show ?case by (auto split: if_splits iteration.splits)
qed

text \<open>An input pid of 0 or 1 (any pid that is not above 1) skips the walk: the result
  is the one of the namespace-identity fallback, whatever the bound.\<close>

lemma findContainerForPid_skips_walk:
  "\<not> 1 <s pid \<Longrightarrow> findContainerForPid n s pid = Some (namespace_fallback s pid)"
  by (cases n) (simp_all add: findContainerForPid_def)

text \<open>
  C3 (as amended). Every instance the resolver returns has the type container. An
  instance returned by the namespace-identity fallback (the walk ended with
  \<open>pid \<le> 1\<close>) is running as well. The ancestry walk returns the instance that the
  lookup service gives for the name of the monitor without asking whether it runs.
\<close>

theorem findContainerForPid_container:
  assumes "findContainerForPid n s pid = Some (Inr inst)"
  shows "Type inst = Container \<and> (ancestry_walk n s pid = Some Exited \<longrightarrow> IsRunning inst)"
  using assms
  by (auto simp add: findContainerForPid_def split: option.splits walk.splits
      dest: ancestry_walk_container namespace_fallback_running)

theorem findContainerForPid_container_witness:
  "findContainerForPid (Suc (Suc 0)) example_daemon 6000 = Some (Inr example_instance)
   \<and> ancestry_walk (Suc (Suc 0)) example_daemon 6000 = Some Exited
   \<and> Type example_instance = Container \<and> IsRunning example_instance"
  using findContainerForPid_container [of "Suc (Suc 0)" example_daemon 6000 example_instance]
    example_fallback
  by simp

text \<open>
  C3 as stated fails: the process 5000 of \<open>stale_daemon\<close> is a child of the monitor of
  the container \<open>web\<close>, the lookup service returns the instance with its running flag
  off, and the resolver returns it.
\<close>

theorem findContainerForPid_not_running:
  "findContainerForPid (Suc (Suc 0)) stale_daemon 5000 = Some (Inr stopped_instance)
   \<and> Type stopped_instance = Container
   \<and> \<not> IsRunning stopped_instance"
  by (simp add: string_eval resolver_eval example_eval stale_daemon_def stopped_instance_def)



text \<open>Without a \<^verbatim>\<open>PPid\<close> line in the status file an iteration that finds no monitor
  leaves \<open>pid\<close> as it is; the kernel writes that line for every process.\<close>

lemma scan_lines_no_match:
  "list_all (\<lambda>line. FindPPid line = None) lines \<Longrightarrow> scan_lines lines pid = Inr pid"
  by (induction lines) simp_all

lemma walk_iteration_without_ppid_line:
  assumes "ReadFile s (proc_path (sint p) ''cmdline'') = Inr cmdline"
      and "ReadFile s (proc_path (sint p) ''status'') = Inr status"
      and "\<not> HasPrefix cmdline ''[lxc monitor]''"
      and "list_all (\<lambda>line. FindPPid line = None) (Split status (CHR 0x0A))"
  shows "walk_iteration s p = Climb p"
  using assms by (simp add: walk_iteration_def scan_lines_no_match)


lemma isdigit_digit: "k < 10 \<Longrightarrow> isdigit (''0123456789'' ! k)"
proof -
  assume "k < 10"
  then have "k \<in> {0, 1, 2, 3, 4, 5, 6, 7, 8, 9}" by auto
  then show ?thesis by (auto simp add: isdigit_def)
qed



lemma hd_digits: "isdigit (hd (digits n)) \<and> digits n \<noteq> []"
proof (induction n rule: digits.induct)
  case (1 n)
  show ?case
  proof (cases "n < 10")
    case True
    then show ?thesis
      by (subst (1 2) digits.simps) (simp add: isdigit_digit)
  next
    case False
    with 1 show ?thesis
      by (subst (1 2) digits.simps) simp
  qed
qed








subsection \<open>The feature gate\<close>

text \<open>
  C4. With the guest-API toggle false, every handler of the table except the one of
  \<^verbatim>\<open>/\<close> and the GET branch of \<^verbatim>\<open>/1.0\<close> answers 403 "not authorized" and changes
  nothing. The image export answers 403 as well when the images toggle is unset, empty
  or false, that is, for a boolean value, whenever it is not explicitly true. The root
  index answers 200 with \<^verbatim>\<open>["/1.0"]\<close> whatever the configuration is, and so does GET
  \<^verbatim>\<open>/1.0\<close> whenever the location can be read (the daemon is clustered or the host name
  is available).
\<close>

theorem guestapi_gate:
  "(\<forall>path f. (path, f) \<in> set handlers \<and> path \<noteq> ''/'' \<and> (path = ''/1.0'' \<longrightarrow> Method r = ''PATCH'')
        \<and> IsFalse (index (ExpandedConfig c) ''security.guestapi'')
        \<longrightarrow> f d c r = (not_authorized c, c, d))
   \<and> (IsFalseOrEmpty (index (ExpandedConfig c) ''security.guestapi.images'')
        \<longrightarrow> devIncusImageExport d c r = (not_authorized c, c, d))
   \<and> ((IsTrue (index (ExpandedConfig c) ''security.guestapi.images'')
         \<or> IsFalse (index (ExpandedConfig c) ''security.guestapi.images'')
         \<or> index (ExpandedConfig c) ''security.guestapi.images'' = '''')
        \<and> \<not> IsTrue (index (ExpandedConfig c) ''security.guestapi.images'')
        \<longrightarrow> devIncusImageExport d c r = (not_authorized c, c, d))
   \<and> status_code (not_authorized c) = 403
   \<and> devIncusRoot d c r = (DevIncusResponse 200 (StringList [''/1.0'']) ''json'' (Type c = VM), c, d)
   \<and> (Method r = ''GET'' \<and> (serverClustered d \<or> (\<exists>h. Hostname d = Inr h))
        \<longrightarrow> status_code (fst (devIncusAPIHandler d c r)) = 200)"
proof -
  have gate: "\<forall>path f. (path, f) \<in> set handlers \<and> path \<noteq> ''/'' \<and> (path = ''/1.0'' \<longrightarrow> Method r = ''PATCH'')
        \<and> IsFalse (index (ExpandedConfig c) ''security.guestapi'')
        \<longrightarrow> f d c r = (not_authorized c, c, d)"
    by (auto simp add: handlers_def devIncusAPIHandler_def devIncusConfigGet_def
        devIncusConfigKeyGet_def devIncusMetadataGet_def devIncusEventsGet_def
        devIncusImageExport_def devIncusDevicesGet_def)
  have images: "IsFalseOrEmpty (index (ExpandedConfig c) ''security.guestapi.images'')
        \<longrightarrow> devIncusImageExport d c r = (not_authorized c, c, d)"
    by (simp add: devIncusImageExport_def)
  have images': "(IsTrue (index (ExpandedConfig c) ''security.guestapi.images'')
         \<or> IsFalse (index (ExpandedConfig c) ''security.guestapi.images'')
         \<or> index (ExpandedConfig c) ''security.guestapi.images'' = '''')
        \<and> \<not> IsTrue (index (ExpandedConfig c) ''security.guestapi.images'')
        \<longrightarrow> devIncusImageExport d c r = (not_authorized c, c, d)"
    using images by (auto simp add: IsFalseOrEmpty_def)
  have code: "status_code (not_authorized c) = 403"
    by (simp add: not_authorized_def)
  have root: "devIncusRoot d c r = (DevIncusResponse 200 (StringList [''/1.0'']) ''json'' (Type c = VM), c, d)"
    by (simp add: devIncusRoot_def)
  have api: "Method r = ''GET'' \<and> (serverClustered d \<or> (\<exists>h. Hostname d = Inr h))
        \<longrightarrow> status_code (fst (devIncusAPIHandler d c r)) = 200"
    by (auto simp add: devIncusAPIHandler_def Let_def)
  from gate images images' code root api show ?thesis by blast
qed

theorem guestapi_gate_witness:
  "(''/1.0/config'', devIncusConfigGet) \<in> set handlers
   \<and> IsFalse (index (ExpandedConfig disabled_instance) ''security.guestapi'')
   \<and> IsFalseOrEmpty (index (ExpandedConfig disabled_instance) ''security.guestapi.images'')
   \<and> Method example_request = ''GET'' \<and> Hostname example_daemon = Inr ''host1''
   \<and> devIncusConfigGet example_daemon disabled_instance example_request =
       (not_authorized disabled_instance, disabled_instance, example_daemon)
   \<and> devIncusImageExport example_daemon disabled_instance example_request =
       (not_authorized disabled_instance, disabled_instance, example_daemon)
   \<and> status_code (not_authorized disabled_instance) = 403
   \<and> status_code (fst (devIncusRoot example_daemon disabled_instance example_request)) = 200
   \<and> status_code (fst (devIncusAPIHandler example_daemon disabled_instance example_request)) = 200"
proof -
  note g = guestapi_gate [of example_request disabled_instance example_daemon]
  have mem: "(''/1.0/config'', devIncusConfigGet) \<in> set handlers"
    by (simp add: handlers_def)
  have off: "IsFalse (index (ExpandedConfig disabled_instance) ''security.guestapi'')"
    by (simp add: disabled_instance_def string_eval)
  have img: "IsFalseOrEmpty (index (ExpandedConfig disabled_instance) ''security.guestapi.images'')"
    by (simp add: disabled_instance_def string_eval)
  have get: "Method example_request = ''GET''"
    by (simp add: example_request_def)
  have host: "Hostname example_daemon = Inr ''host1''"
    by (simp add: example_daemon_def)
  from g have "(''/1.0/config'', devIncusConfigGet) \<in> set handlers \<and> ''/1.0/config'' \<noteq> ''/''
        \<and> (''/1.0/config'' = ''/1.0'' \<longrightarrow> Method example_request = ''PATCH'')
        \<and> IsFalse (index (ExpandedConfig disabled_instance) ''security.guestapi'')
        \<longrightarrow> devIncusConfigGet example_daemon disabled_instance example_request =
              (not_authorized disabled_instance, disabled_instance, example_daemon)"
    by blast
  with mem off have a: "devIncusConfigGet example_daemon disabled_instance example_request =
       (not_authorized disabled_instance, disabled_instance, example_daemon)"
    by simp
  from g img have b: "devIncusImageExport example_daemon disabled_instance example_request =
       (not_authorized disabled_instance, disabled_instance, example_daemon)"
    by blast
  from g have c: "status_code (not_authorized disabled_instance) = 403"
    by blast
  from g have d: "status_code (fst (devIncusRoot example_daemon disabled_instance example_request)) = 200"
    by simp
  from g get host have e:
    "status_code (fst (devIncusAPIHandler example_daemon disabled_instance example_request)) = 200"
    by blast
  from mem off img get host a b c d e show ?thesis by blast
qed

subsection \<open>The state of the instance\<close>

lemma index_update_same: "index (AList.update k v m) k = v"
  by (simp add: index_def update_conv')

lemma IsTrue_true: "IsTrue ''true''"
  by (simp add: IsTrue_def ToLower_def lower_char_def)

lemma not_IsTrue_false: "\<not> IsTrue ''false''"
  by (simp add: IsTrue_def ToLower_def lower_char_def)

text \<open>
  C5 (as amended). A PATCH of \<^verbatim>\<open>/1.0\<close> that passes the gate, decodes and is written:
  with the state "Ready" it sets the flag \<^verbatim>\<open>volatile.last_state.ready\<close> to true, sends
  one \<^verbatim>\<open>instance-ready\<close> lifecycle event, whatever the state was before (a second
  identical PATCH sends the event again), and a GET that follows answers with the state
  Ready; with the state "Started" it sets the flag to false, sends no event, and a GET
  that follows answers with the state Started.
\<close>

theorem devIncusAPIHandler_patch:
  assumes "\<not> IsFalse (index (ExpandedConfig c) ''security.guestapi'')"
      and "VolatileSetErr c = None"
      and "Method r = ''PATCH''"
      and "Body r = Inr req"
  shows "(StatusCodeFromString (State req) = Ready \<longrightarrow>
            (\<exists>c'. devIncusAPIHandler d c r =
                    (DevIncusResponse 200 (Str '''') ''raw'' (Type c = VM), c',
                     d\<lparr>Events := Events d @
                         [\<lparr>EventProject = Project c, Action = ''instance-ready'', Source = Name c\<rparr>]\<rparr>)
                 \<and> index (LocalConfig c') ''volatile.last_state.ready'' = ''true''
                 \<and> (\<forall>d2 g location. Method g = ''GET''
                       \<and> (if serverClustered d2 then Inr (Location c') else Hostname d2) = Inr location \<longrightarrow>
                       devIncusAPIHandler d2 c' g =
                         (DevIncusResponse 200
                            (Get \<lparr>State = ''Ready'', APIVersion = version_APIVersion,
                                  Location_of = location, InstanceType = instancetype_String (Type c)\<rparr>)
                            ''json'' (Type c = VM), c', d2))))
       \<and> (StatusCodeFromString (State req) = Started \<longrightarrow>
            (\<exists>c'. devIncusAPIHandler d c r = (DevIncusResponse 200 (Str '''') ''raw'' (Type c = VM), c', d)
                 \<and> index (LocalConfig c') ''volatile.last_state.ready'' = ''false''
                 \<and> (\<forall>d2 g location. Method g = ''GET''
                       \<and> (if serverClustered d2 then Inr (Location c') else Hostname d2) = Inr location \<longrightarrow>
                       devIncusAPIHandler d2 c' g =
                         (DevIncusResponse 200
                            (Get \<lparr>State = ''Started'', APIVersion = version_APIVersion,
                                  Location_of = location, InstanceType = instancetype_String (Type c)\<rparr>)
                            ''json'' (Type c = VM), c', d2))))"
proof -
  let ?set = "\<lambda>b. c\<lparr>LocalConfig := AList.update ''volatile.last_state.ready'' (FormatBool b) (LocalConfig c)\<rparr>"
  have vs: "\<And>b. VolatileSet c [(''volatile.last_state.ready'', FormatBool b)] = Inr (?set b)"
    using assms(2) by (simp add: VolatileSet_def)
  have get: "\<And>b d2 g location. Method g = ''GET''
        \<Longrightarrow> (if serverClustered d2 then Inr (Location (?set b)) else Hostname d2) = Inr location
        \<Longrightarrow> devIncusAPIHandler d2 (?set b) g =
              (DevIncusResponse 200
                 (Get \<lparr>State = StatusCode_String (if b then Ready else Started), APIVersion = version_APIVersion,
                       Location_of = location, InstanceType = instancetype_String (Type c)\<rparr>)
                 ''json'' (Type c = VM), ?set b, d2)"
    by (auto simp add: devIncusAPIHandler_def index_update_same FormatBool_def IsTrue_true not_IsTrue_false
        split: if_splits)
  have ready: "StatusCodeFromString (State req) = Ready \<Longrightarrow>
      devIncusAPIHandler d c r =
        (DevIncusResponse 200 (Str '''') ''raw'' (Type c = VM), ?set True,
         d\<lparr>Events := Events d @
              [\<lparr>EventProject = Project c, Action = ''instance-ready'', Source = Name c\<rparr>]\<rparr>)"
    using assms vs [of True]
    by (simp add: devIncusAPIHandler_def SendLifecycle_def InstanceReady_Event_def)
  have started: "StatusCodeFromString (State req) = Started \<Longrightarrow>
      devIncusAPIHandler d c r = (DevIncusResponse 200 (Str '''') ''raw'' (Type c = VM), ?set False, d)"
    using assms vs [of False]
    by (simp add: devIncusAPIHandler_def)
  show ?thesis
  proof (intro conjI impI)
    assume s: "StatusCodeFromString (State req) = Ready"
    show "\<exists>c'. devIncusAPIHandler d c r =
                    (DevIncusResponse 200 (Str '''') ''raw'' (Type c = VM), c',
                     d\<lparr>Events := Events d @
                         [\<lparr>EventProject = Project c, Action = ''instance-ready'', Source = Name c\<rparr>]\<rparr>)
                 \<and> index (LocalConfig c') ''volatile.last_state.ready'' = ''true''
                 \<and> (\<forall>d2 g location. Method g = ''GET''
                       \<and> (if serverClustered d2 then Inr (Location c') else Hostname d2) = Inr location \<longrightarrow>
                       devIncusAPIHandler d2 c' g =
                         (DevIncusResponse 200
                            (Get \<lparr>State = ''Ready'', APIVersion = version_APIVersion,
                                  Location_of = location, InstanceType = instancetype_String (Type c)\<rparr>)
                            ''json'' (Type c = VM), c', d2))"
      using ready [OF s] get [of _ _ True]
      by (intro exI [of _ "?set True"]) (simp add: index_update_same FormatBool_def)
  next
    assume s: "StatusCodeFromString (State req) = Started"
    show "\<exists>c'. devIncusAPIHandler d c r = (DevIncusResponse 200 (Str '''') ''raw'' (Type c = VM), c', d)
                 \<and> index (LocalConfig c') ''volatile.last_state.ready'' = ''false''
                 \<and> (\<forall>d2 g location. Method g = ''GET''
                       \<and> (if serverClustered d2 then Inr (Location c') else Hostname d2) = Inr location \<longrightarrow>
                       devIncusAPIHandler d2 c' g =
                         (DevIncusResponse 200
                            (Get \<lparr>State = ''Started'', APIVersion = version_APIVersion,
                                  Location_of = location, InstanceType = instancetype_String (Type c)\<rparr>)
                            ''json'' (Type c = VM), c', d2))"
      using started [OF s] get [of _ _ False]
      by (intro exI [of _ "?set False"]) (simp add: index_update_same FormatBool_def)
  qed
qed

theorem devIncusAPIHandler_patch_witness:
  "\<not> IsFalse (index (ExpandedConfig example_instance) ''security.guestapi'')
   \<and> VolatileSetErr example_instance = None
   \<and> Method patch_ready = ''PATCH''
   \<and> Body patch_ready = Inr \<lparr>State = ''Ready''\<rparr>
   \<and> StatusCodeFromString ''Ready'' = Ready
   \<and> (\<exists>c'. devIncusAPIHandler example_daemon example_instance patch_ready =
              (DevIncusResponse 200 (Str '''') ''raw'' False, c',
               example_daemon\<lparr>Events := [ready_event]\<rparr>)
            \<and> fst (devIncusAPIHandler example_daemon c' example_request) =
                DevIncusResponse 200
                  (Get \<lparr>State = ''Ready'', APIVersion = ''1.0'', Location_of = ''host1'',
                        InstanceType = ''container''\<rparr>)
                  ''json'' False)"
proof -
  have gate: "\<not> IsFalse (index (ExpandedConfig example_instance) ''security.guestapi'')"
    by (simp add: example_instance_def string_eval)
  have ok: "VolatileSetErr example_instance = None"
    by (simp add: example_instance_def)
  have m: "Method patch_ready = ''PATCH''"
    by (simp add: patch_ready_def)
  have b: "Body patch_ready = Inr \<lparr>State = ''Ready''\<rparr>"
    by (simp add: patch_ready_def)
  have s: "StatusCodeFromString (State \<lparr>State = ''Ready''\<rparr>) = Ready"
    by (simp add: StatusCodeFromString_def ToLower_def lower_char_def)
  have ex: "Project example_instance = ''default'' \<and> Name example_instance = ''web''
      \<and> Type example_instance = Container \<and> Events example_daemon = []
      \<and> Method example_request = ''GET'' \<and> \<not> serverClustered example_daemon
      \<and> Hostname example_daemon = Inr ''host1''"
    by (simp add: example_instance_def example_daemon_def example_request_def)
  from devIncusAPIHandler_patch [OF gate ok m b, of example_daemon] s
  obtain c' where c': "devIncusAPIHandler example_daemon example_instance patch_ready =
        (DevIncusResponse 200 (Str '''') ''raw'' (Type example_instance = VM), c',
         example_daemon\<lparr>Events := Events example_daemon @
           [\<lparr>EventProject = Project example_instance, Action = ''instance-ready'',
             Source = Name example_instance\<rparr>]\<rparr>)"
      and get: "\<forall>d2 g location. Method g = ''GET''
          \<and> (if serverClustered d2 then Inr (Location c') else Hostname d2) = Inr location \<longrightarrow>
          devIncusAPIHandler d2 c' g =
            (DevIncusResponse 200
               (Get \<lparr>State = ''Ready'', APIVersion = version_APIVersion,
                     Location_of = location, InstanceType = instancetype_String (Type example_instance)\<rparr>)
               ''json'' (Type example_instance = VM), c', d2)"
    by blast
  from get have "Method example_request = ''GET''
          \<and> (if serverClustered example_daemon then Inr (Location c') else Hostname example_daemon)
              = Inr ''host1'' \<longrightarrow>
          devIncusAPIHandler example_daemon c' example_request =
            (DevIncusResponse 200
               (Get \<lparr>State = ''Ready'', APIVersion = version_APIVersion,
                     Location_of = ''host1'', InstanceType = instancetype_String (Type example_instance)\<rparr>)
               ''json'' (Type example_instance = VM), c', example_daemon)"
    by blast
  with ex have g: "fst (devIncusAPIHandler example_daemon c' example_request) =
                DevIncusResponse 200
                  (Get \<lparr>State = ''Ready'', APIVersion = ''1.0'', Location_of = ''host1'',
                        InstanceType = ''container''\<rparr>)
                  ''json'' False"
    by (simp add: version_APIVersion_def)
  from c' ex have p: "devIncusAPIHandler example_daemon example_instance patch_ready =
              (DevIncusResponse 200 (Str '''') ''raw'' False, c',
               example_daemon\<lparr>Events := [ready_event]\<rparr>)"
    by (simp add: ready_event_def)
  from gate ok m b s p g show ?thesis by auto
qed

text \<open>
  C5 as stated fails: after a first PATCH with the state "Ready" the flag is true and one
  event has been sent; the second identical PATCH sends the event a second time.
\<close>

theorem patch_ready_twice:
  "index (LocalConfig (fst (snd (devIncusAPIHandler example_daemon example_instance patch_ready))))
     ''volatile.last_state.ready'' = ''true''
   \<and> Events (snd (snd (devIncusAPIHandler example_daemon example_instance patch_ready))) = [ready_event]
   \<and> Events (snd (snd (devIncusAPIHandler
        (snd (snd (devIncusAPIHandler example_daemon example_instance patch_ready)))
        (fst (snd (devIncusAPIHandler example_daemon example_instance patch_ready)))
        patch_ready))) = [ready_event, ready_event]"
  by (simp add: devIncusAPIHandler_def patch_ready_def example_eval string_eval
      StatusCodeFromString_def VolatileSet_def FormatBool_def SendLifecycle_def
      InstanceReady_Event_def ready_event_def)

subsection \<open>The configuration endpoints\<close>

lemma distinct_config_paths:
  assumes "distinct (map fst cfg)"
  shows "distinct (map (\<lambda>(k, v). ''/1.0/config/'' @ k) (filter p cfg))"
proof -
  from assms have d: "distinct cfg" and i: "inj_on fst (set cfg)"
    by (simp_all add: distinct_map)
  have "inj_on (\<lambda>(k, v). ''/1.0/config/'' @ k) (set (filter p cfg))"
    using i by (fastforce simp add: inj_on_def)
  with d show ?thesis
    by (simp add: distinct_map)
qed

text \<open>
  C6. With the guest API enabled, GET \<^verbatim>\<open>/1.0/config\<close> answers 200 with a list that has
  exactly one entry \<^verbatim>\<open>/1.0/config/<key>\<close> for every key of the expanded configuration
  that starts with \<^verbatim>\<open>user.\<close> or \<^verbatim>\<open>cloud-init.\<close>, no other entry and no entry twice
  (the keys of a Go map are pairwise distinct).
\<close>

theorem devIncusConfigGet_lists_visible_keys:
  assumes "\<not> IsFalse (index (ExpandedConfig c) ''security.guestapi'')"
      and "distinct (map fst (ExpandedConfig c))"
  shows "\<exists>filtered.
           devIncusConfigGet d c r = (DevIncusResponse 200 (StringList filtered) ''json'' (Type c = VM), c, d)
           \<and> distinct filtered
           \<and> set filtered =
               (\<lambda>k. ''/1.0/config/'' @ k) `
                 {k \<in> fst ` set (ExpandedConfig c). HasPrefix k ''user.'' \<or> HasPrefix k ''cloud-init.''}
           \<and> length filtered =
               card {k \<in> fst ` set (ExpandedConfig c). HasPrefix k ''user.'' \<or> HasPrefix k ''cloud-init.''}"
proof -
  let ?p = "\<lambda>(k, v::string). HasPrefix k ''user.'' \<or> HasPrefix k ''cloud-init.''"
  let ?l = "map (\<lambda>(k, v). ''/1.0/config/'' @ k) (filter ?p (ExpandedConfig c))"
  let ?K = "{k \<in> fst ` set (ExpandedConfig c). HasPrefix k ''user.'' \<or> HasPrefix k ''cloud-init.''}"
  have r: "devIncusConfigGet d c r = (DevIncusResponse 200 (StringList ?l) ''json'' (Type c = VM), c, d)"
    using assms(1) by (simp add: devIncusConfigGet_def)
  have dl: "distinct ?l"
    using assms(2) by (rule distinct_config_paths)
  have s: "set ?l = (\<lambda>k. ''/1.0/config/'' @ k) ` ?K"
    by (force simp add: image_iff)
  have "card (set ?l) = card ?K"
    unfolding s by (rule card_image) (simp add: inj_on_def)
  moreover have "card (set ?l) = length ?l"
    using dl by (rule distinct_card)
  ultimately have len: "length ?l = card ?K"
    by (simp only:)
  from r dl s len show ?thesis by blast
qed

theorem devIncusConfigGet_lists_visible_keys_witness:
  "\<not> IsFalse (index (ExpandedConfig example_instance) ''security.guestapi'')
   \<and> distinct (map fst (ExpandedConfig example_instance))
   \<and> devIncusConfigGet example_daemon example_instance example_request =
       (DevIncusResponse 200
          (StringList [''/1.0/config/user.hello'', ''/1.0/config/cloud-init.user-data'',
                       ''/1.0/config/user.meta-data''])
          ''json'' False, example_instance, example_daemon)"
proof -
  have gate: "\<not> IsFalse (index (ExpandedConfig example_instance) ''security.guestapi'')"
    by (simp add: example_instance_def string_eval)
  have keys: "distinct (map fst (ExpandedConfig example_instance))"
    by (simp add: example_instance_def)
  from devIncusConfigGet_lists_visible_keys [OF gate keys, of example_daemon example_request]
  obtain filtered where "devIncusConfigGet example_daemon example_instance example_request =
      (DevIncusResponse 200 (StringList filtered) ''json'' (Type example_instance = VM),
       example_instance, example_daemon)"
    by blast
  moreover have "fst (devIncusConfigGet example_daemon example_instance example_request) =
      DevIncusResponse 200
          (StringList [''/1.0/config/user.hello'', ''/1.0/config/cloud-init.user-data'',
                       ''/1.0/config/user.meta-data''])
          ''json'' False"
    by (simp add: devIncusConfigGet_def example_instance_def string_eval)
  ultimately have "devIncusConfigGet example_daemon example_instance example_request =
       (DevIncusResponse 200
          (StringList [''/1.0/config/user.hello'', ''/1.0/config/cloud-init.user-data'',
                       ''/1.0/config/user.meta-data''])
          ''json'' False, example_instance, example_daemon)"
    by simp
  with gate keys show ?thesis by simp
qed

text \<open>
  C7. With the guest API enabled and a key that unescapes, GET \<^verbatim>\<open>/1.0/config/{key}\<close>
  answers 403 when the key starts with neither \<^verbatim>\<open>user.\<close> nor \<^verbatim>\<open>cloud-init.\<close>, 404 when
  it has such a prefix and is not in the expanded configuration, and 200 with the raw
  value when it has such a prefix and is in the expanded configuration.
\<close>

theorem devIncusConfigKeyGet_cases:
  assumes "\<not> IsFalse (index (ExpandedConfig c) ''security.guestapi'')"
      and "PathUnescape (index (Vars r) ''key'') = Inr key"
  shows "(\<not> HasPrefix key ''user.'' \<and> \<not> HasPrefix key ''cloud-init.'' \<longrightarrow>
            devIncusConfigKeyGet d c r =
              (DevIncusErrorResponse (StatusErrorf 403 ''not authorized'' []) (Type c = VM), c, d))
       \<and> ((HasPrefix key ''user.'' \<or> HasPrefix key ''cloud-init.'') \<and> map_of (ExpandedConfig c) key = None \<longrightarrow>
            devIncusConfigKeyGet d c r =
              (DevIncusErrorResponse (StatusErrorf 404 ''not found'' []) (Type c = VM), c, d))
       \<and> (\<forall>v. (HasPrefix key ''user.'' \<or> HasPrefix key ''cloud-init.'') \<and> map_of (ExpandedConfig c) key = Some v \<longrightarrow>
            devIncusConfigKeyGet d c r = (DevIncusResponse 200 (Str v) ''raw'' (Type c = VM), c, d))"
  using assms by (auto simp add: devIncusConfigKeyGet_def not_authorized_def)

lemma char_of_46: "char_of (46 :: nat) = CHR ''.''"
  by code_simp

lemma example_key: "PathUnescape (index (Vars example_request) ''key'') = Inr ''user.hello''"
  by (simp add: example_request_def index_def ishex_def unhex_def char_of_46)

theorem devIncusConfigKeyGet_cases_witness:
  "\<not> IsFalse (index (ExpandedConfig example_instance) ''security.guestapi'')
   \<and> PathUnescape (index (Vars example_request) ''key'') = Inr ''user.hello''
   \<and> HasPrefix ''user.hello'' ''user.''
   \<and> map_of (ExpandedConfig example_instance) ''user.hello'' = Some ''world''
   \<and> devIncusConfigKeyGet example_daemon example_instance example_request =
       (DevIncusResponse 200 (Str ''world'') ''raw'' False, example_instance, example_daemon)"
proof -
  have gate: "\<not> IsFalse (index (ExpandedConfig example_instance) ''security.guestapi'')"
    by (simp add: example_instance_def string_eval)
  have pre: "HasPrefix ''user.hello'' ''user.''"
    by (simp add: string_eval)
  have v: "map_of (ExpandedConfig example_instance) ''user.hello'' = Some ''world''"
    by (simp add: example_instance_def)
  have ty: "Type example_instance = Container"
    by (simp add: example_instance_def)
  from devIncusConfigKeyGet_cases [OF gate example_key, of example_daemon]
  have "(HasPrefix ''user.hello'' ''user.'' \<or> HasPrefix ''user.hello'' ''cloud-init.'')
        \<and> map_of (ExpandedConfig example_instance) ''user.hello'' = Some ''world'' \<longrightarrow>
        devIncusConfigKeyGet example_daemon example_instance example_request =
          (DevIncusResponse 200 (Str ''world'') ''raw'' (Type example_instance = VM),
           example_instance, example_daemon)"
    by blast
  with pre v ty have "devIncusConfigKeyGet example_daemon example_instance example_request =
       (DevIncusResponse 200 (Str ''world'') ''raw'' False, example_instance, example_daemon)"
    by simp
  with gate example_key pre v show ?thesis by simp
qed

subsection \<open>The devices endpoint\<close>

lemma fill_hwaddr_spec:
  "(\<lambda>(name, cfg) (name', cfg').
        name' = name \<and>
        (if index cfg ''type'' = ''nic'' \<and> index cfg ''hwaddr'' = ''''
            \<and> index lc (''volatile.'' @ name @ ''.hwaddr'') \<noteq> ''''
         then map_of cfg' = (map_of cfg)(''hwaddr'' \<mapsto> index lc (''volatile.'' @ name @ ''.hwaddr''))
         else cfg' = cfg)) dev (fill_hwaddr lc dev)"
  by (cases dev) (simp add: fill_hwaddr_def update_conv')

text \<open>
  C9. With the guest API enabled, GET \<^verbatim>\<open>/1.0/devices\<close> answers 200 with the expanded
  devices of the instance, device by device under the same names: a device of type
  \<^verbatim>\<open>nic\<close> whose \<^verbatim>\<open>hwaddr\<close> is empty, when the local configuration has a non-empty
  value under \<^verbatim>\<open>volatile.<name>.hwaddr\<close>, has that value as its \<^verbatim>\<open>hwaddr\<close> and every
  other key as before; every other device is unchanged. (The returned map is the map of
  the instance handle, which holds the same values after the call.)
\<close>

theorem devIncusDevicesGet_fills_hwaddr:
  assumes "\<not> IsFalse (index (ExpandedConfig c) ''security.guestapi'')"
  shows "\<exists>devices.
           devIncusDevicesGet d c r =
             (DevIncusResponse 200 (Devices devices) ''json'' (Type c = VM),
              c\<lparr>ExpandedDevices := devices\<rparr>, d)
           \<and> list_all2
               (\<lambda>(name, cfg) (name', cfg').
                  name' = name \<and>
                  (if index cfg ''type'' = ''nic'' \<and> index cfg ''hwaddr'' = ''''
                      \<and> index (LocalConfig c) (''volatile.'' @ name @ ''.hwaddr'') \<noteq> ''''
                   then map_of cfg' =
                          (map_of cfg)(''hwaddr'' \<mapsto> index (LocalConfig c) (''volatile.'' @ name @ ''.hwaddr''))
                   else cfg' = cfg))
               (ExpandedDevices c) devices"
proof -
  let ?devs = "map (fill_hwaddr (LocalConfig c)) (ExpandedDevices c)"
  have r: "devIncusDevicesGet d c r =
             (DevIncusResponse 200 (Devices ?devs) ''json'' (Type c = VM), c\<lparr>ExpandedDevices := ?devs\<rparr>, d)"
    using assms by (simp add: devIncusDevicesGet_def Let_def)
  have "list_all2
               (\<lambda>(name, cfg) (name', cfg').
                  name' = name \<and>
                  (if index cfg ''type'' = ''nic'' \<and> index cfg ''hwaddr'' = ''''
                      \<and> index (LocalConfig c) (''volatile.'' @ name @ ''.hwaddr'') \<noteq> ''''
                   then map_of cfg' =
                          (map_of cfg)(''hwaddr'' \<mapsto> index (LocalConfig c) (''volatile.'' @ name @ ''.hwaddr''))
                   else cfg' = cfg))
               (ExpandedDevices c) ?devs"
    unfolding list_all2_map2 by (rule list_all2_refl) (rule fill_hwaddr_spec)
  with r show ?thesis by blast
qed


theorem devIncusDevicesGet_fills_hwaddr_witness:
  "\<not> IsFalse (index (ExpandedConfig example_instance) ''security.guestapi'')
   \<and> fst (devIncusDevicesGet example_daemon example_instance example_request) =
       DevIncusResponse 200
         (Devices [(''eth0'', [(''type'', ''nic''), (''network'', ''incusbr0''),
                               (''hwaddr'', ''00:16:3e:aa:bb:cc'')]),
                   (''root'', [(''type'', ''disk''), (''path'', ''/'')])])
         ''json'' False"
proof -
  have gate: "\<not> IsFalse (index (ExpandedConfig example_instance) ''security.guestapi'')"
    by (simp add: example_instance_def string_eval)
  from devIncusDevicesGet_fills_hwaddr [OF gate, of example_daemon example_request]
  obtain devices where "devIncusDevicesGet example_daemon example_instance example_request =
             (DevIncusResponse 200 (Devices devices) ''json'' (Type example_instance = VM),
              example_instance\<lparr>ExpandedDevices := devices\<rparr>, example_daemon)"
    by blast
  moreover have "ExpandedDevices (fst (snd (devIncusDevicesGet example_daemon example_instance example_request)))
      = [(''eth0'', [(''type'', ''nic''), (''network'', ''incusbr0''),
                     (''hwaddr'', ''00:16:3e:aa:bb:cc'')]),
         (''root'', [(''type'', ''disk''), (''path'', ''/'')])]"
    by (simp add: devIncusDevicesGet_def fill_hwaddr_def example_instance_def string_eval)
  moreover have "Type example_instance = Container"
    by (simp add: example_instance_def)
  ultimately have "fst (devIncusDevicesGet example_daemon example_instance example_request) =
       DevIncusResponse 200
         (Devices [(''eth0'', [(''type'', ''nic''), (''network'', ''incusbr0''),
                               (''hwaddr'', ''00:16:3e:aa:bb:cc'')]),
                   (''root'', [(''type'', ''disk''), (''path'', ''/'')])])
         ''json'' False"
    by simp
  with gate show ?thesis by simp
qed

end
